theory Spec2Isabelle
  imports Main "HOL-Library.Sublist"
begin

section \<open>The document tree of the Markdown library\<close>

text \<open>
  Modelled from the spec: the node types of the Markdown library (package
  \<^verbatim>\<open>ast\<close>), which the program uses and the repository does not hold. As in section 3
  of the specification, a node is either a container, which has an ordered child
  sequence, or a leaf, which carries literal bytes and has no children; a heading
  carries its level. Byte slices and Go strings are both \<^typ>\<open>string\<close>.
\<close>

datatype containerKind = Document | Heading int | Paragraph | OtherContainer string

datatype leafKind = Text | HorizontalRule | OtherLeaf string

datatype node = Container containerKind "node list" | Leaf leafKind string

fun AsLeaf :: "node \<Rightarrow> string option" where
  "AsLeaf (Leaf k lit) = Some lit"
| "AsLeaf (Container k cs) = None"

fun AsContainer :: "node \<Rightarrow> node list option" where
  "AsContainer (Container k cs) = Some cs"
| "AsContainer (Leaf k lit) = None"

fun GetChildren :: "node \<Rightarrow> node list" where
  "GetChildren (Container k cs) = cs"
| "GetChildren (Leaf k lit) = []"

datatype WalkStatus = GoToNext | SkipChildren | Terminate

text \<open>
  Modelled from the spec: \<^verbatim>\<open>ast.Walk\<close> of the same library, the depth-first walk
  in document order of section 4.2. The visitor is called on a node when it is
  entered, then the children are walked in order, then a container (a node whose
  \<open>AsContainer\<close> is not nil) is visited a second time when it is left. A visit that
  answers \<^const>\<open>Terminate\<close> ends the whole walk; a container that terminates the walk
  on entering is still closed by its leaving visit, whose answer is dropped. The
  visitor's captured variables are the state \<open>'s\<close>.
\<close>

fun Walk :: "node \<Rightarrow> (node \<Rightarrow> bool \<Rightarrow> 's \<Rightarrow> WalkStatus \<times> 's) \<Rightarrow> 's \<Rightarrow> WalkStatus \<times> 's"
  and WalkChildren :: "node list \<Rightarrow> (node \<Rightarrow> bool \<Rightarrow> 's \<Rightarrow> WalkStatus \<times> 's) \<Rightarrow> 's \<Rightarrow> WalkStatus \<times> 's"
where
  "Walk (Leaf k lit) visitor s =
     (case visitor (Leaf k lit) True s of
        (status, s1) \<Rightarrow> if status = Terminate then (Terminate, s1) else (GoToNext, s1))"
| "Walk (Container k cs) visitor s =
     (case visitor (Container k cs) True s of
        (status, s1) \<Rightarrow>
          if status = Terminate then (Terminate, snd (visitor (Container k cs) False s1))
          else
            (case (if status \<noteq> SkipChildren then WalkChildren cs visitor s1 else (GoToNext, s1)) of
               (status2, s2) \<Rightarrow>
                 if status2 = Terminate then (Terminate, s2)
                 else
                   (case visitor (Container k cs) False s2 of
                      (status3, s3) \<Rightarrow>
                        if status3 = Terminate then (Terminate, s3) else (GoToNext, s3))))"
| "WalkChildren [] visitor s = (GoToNext, s)"
| "WalkChildren (n # ns) visitor s =
     (case Walk n visitor s of
        (status, s1) \<Rightarrow> if status = Terminate then (Terminate, s1) else WalkChildren ns visitor s1)"

definition WalkFunc :: "node \<Rightarrow> (node \<Rightarrow> bool \<Rightarrow> 's \<Rightarrow> WalkStatus \<times> 's) \<Rightarrow> 's \<Rightarrow> 's" where
  "WalkFunc n f s = snd (Walk n f s)"

section \<open>Posts\<close>

record Time =
  sec :: int
  nsec :: nat
  loc :: string

record postMetadata =
  DatePosted :: Time
  DatesEdited :: "Time list"

record post =
  title :: string
  summary :: string
  url :: string
  metadata :: "postMetadata option"

text \<open>\<^verbatim>\<open>var p post\<close>: the zero value.\<close>

definition zeroPost :: post where
  "zeroPost = \<lparr>title = '''', summary = '''', url = '''', metadata = None\<rparr>"

text \<open>
  \<^verbatim>\<open>childLiterals\<close>: the loop over the children appends the literal of a child that
  is a leaf (\<open>AsLeaf\<close> is not nil), and for any other child the literals found below
  it.
\<close>

fun childLiterals :: "node \<Rightarrow> string"
  and childLiteralsLoop :: "node list \<Rightarrow> string \<Rightarrow> string"
where
  "childLiterals (Container k cs) = childLiteralsLoop cs ''''"
| "childLiterals (Leaf k l) = childLiteralsLoop [] ''''"
| "childLiteralsLoop [] lit = lit"
| "childLiteralsLoop (Leaf k l # rest) lit = childLiteralsLoop rest (lit @ l)"
| "childLiteralsLoop (Container k cs # rest) lit =
     childLiteralsLoop rest (lit @ childLiterals (Container k cs))"

text \<open>
  The visitor closure of \<^verbatim>\<open>parsePost\<close>. It does not look at the entering flag, so
  it runs on both visits of a container.
\<close>

fun visitor :: "node \<Rightarrow> bool \<Rightarrow> post \<Rightarrow> WalkStatus \<times> post" where
  "visitor (Container (Heading level) cs) entering p =
     (GoToNext,
      if level = 1 \<and> title p = '''' then p\<lparr>title := childLiterals (Container (Heading level) cs)\<rparr>
      else p)"
| "visitor (Container Paragraph cs) entering p =
     (Terminate, p\<lparr>summary := childLiterals (Container Paragraph cs)\<rparr>)"
| "visitor n entering p = (GoToNext, p)"


section \<open>Errors, the world and the collaborators\<close>

text \<open>
  A Go \<^verbatim>\<open>error\<close> value. \<open>Errorf\<close> is \<^verbatim>\<open>fmt.Errorf\<close> with a format that
  ends in \<^verbatim>\<open>%w\<close>: it keeps the format, the arguments before the wrapped error, and
  the wrapped error.
\<close>

datatype error = ErrNotExist | ErrOther string | Errorf string "string list" error

fun errors_Is :: "error \<Rightarrow> error \<Rightarrow> bool" where
  "errors_Is (Errorf f as e) target = (Errorf f as e = target \<or> errors_Is e target)"
| "errors_Is e target = (e = target)"

text \<open>
  A function that returns a Go \<^verbatim>\<open>error\<close> fails with \<open>Err\<close>; a run-time panic
  unwinds every caller (nothing in the program recovers) and is \<open>Panic\<close>.
\<close>

datatype failure = Err error | Panic string

text \<open>
  The world the program runs in: the file system, of a type \<open>'fs\<close> that the operating
  system interprets, and what has been written to standard error. Progress lines on
  standard output are not modelled.
\<close>

datatype diagnostic = Diag string error | PanicTrace string

record 'fs world =
  fs :: 'fs
  stderr :: "diagnostic list"

datatype fileMode = ModeRegular | ModeDir | ModeOther

record siteConfig =
  SiteName :: string
  SourcePath :: string
  DestinationPath :: string
  PageTemplateFile :: string
  ResourcePath :: string
  PostPattern :: string

record templateData =
  SiteName :: string
  Body :: string
  RelRoot :: string

text \<open>
  The operating system and the libraries the program calls, none of which is code of
  the repository: every theorem below holds for whatever they do. \<open>filepath_Walk\<close>
  gives the entries in the order in which the walk hands them to its callback, each
  with the error the walk met there; \<open>parser_Parse\<close> is a parser made by
  \<^verbatim>\<open>parser.NewWithExtensions(parser.CommonExtensions | parser.AutoHeadingIDs)\<close> and run
  once; \<open>template_Parse\<close> and \<open>template_Execute\<close> take the template's source text;
  \<open>regexp_Compile\<close> and \<open>regexp_MatchString\<close> take the pattern's text;
  \<open>json_Decode\<close> takes the bytes of the opened file.
\<close>

record 'fs env =
  os_ReadFile :: "string \<Rightarrow> 'fs \<Rightarrow> error + string"
  os_WriteFile :: "string \<Rightarrow> string \<Rightarrow> 'fs \<Rightarrow> error option \<times> 'fs"
  os_MkdirAll :: "string \<Rightarrow> 'fs \<Rightarrow> error option \<times> 'fs"
  os_Stat :: "string \<Rightarrow> 'fs \<Rightarrow> error option"
  os_Open :: "string \<Rightarrow> 'fs \<Rightarrow> error + string"
  file_Close :: "string \<Rightarrow> 'fs \<Rightarrow> error option"
  filepath_Walk :: "string \<Rightarrow> 'fs \<Rightarrow> (string \<times> fileMode \<times> error option) list"
  filepath_Rel :: "string \<Rightarrow> string \<Rightarrow> error + string"
  parser_Parse :: "string \<Rightarrow> node"
  markdown_Render :: "node \<Rightarrow> string"
  template_Parse :: "string \<Rightarrow> error option"
  template_Execute :: "string \<Rightarrow> templateData \<Rightarrow> error + string"
  regexp_Compile :: "string \<Rightarrow> error option"
  regexp_MatchString :: "string \<Rightarrow> string \<Rightarrow> bool"
  json_Decode :: "string \<Rightarrow> error + postMetadata"
  time_Format :: "Time \<Rightarrow> string \<Rightarrow> string"
  viper_ReadInConfig :: "'fs \<Rightarrow> error option"
  viper_UnmarshalExact :: "'fs \<Rightarrow> error + siteConfig"

section \<open>Parsing a post\<close>

definition parseMD :: "'fs env \<Rightarrow> string \<Rightarrow> node" where
  "parseMD e md = parser_Parse e md"

definition parsePost :: "'fs env \<Rightarrow> string \<Rightarrow> post" where
  "parsePost e mdsource = WalkFunc (parseMD e mdsource) visitor zeroPost"


section \<open>Paths and formatting\<close>

text \<open>
  The functions of Go's \<^verbatim>\<open>strings\<close>, \<^verbatim>\<open>path/filepath\<close> and \<^verbatim>\<open>fmt\<close> that the
  program uses on its paths, as their documentation has them, on a system whose
  separator is the slash (where \<^verbatim>\<open>path.Join\<close> and \<^verbatim>\<open>filepath.Join\<close> agree).
  \<open>Ext\<close> scans from the end to the last separator for the last dot. \<open>Clean\<close> works
  on the elements between separators: empty elements and \<^verbatim>\<open>.\<close> go, \<^verbatim>\<open>..\<close> removes the
  element before it, stays when the path is relative and nothing is left to remove, and
  goes at the root; the empty result is \<^verbatim>\<open>.\<close>. \<open>Join\<close> skips leading empty
  elements, joins the rest with the separator and cleans the result.
\<close>

definition TrimPrefix :: "string \<Rightarrow> string \<Rightarrow> string" where
  "TrimPrefix s pre = (if prefix pre s then drop (length pre) s else s)"

definition TrimSuffix :: "string \<Rightarrow> string \<Rightarrow> string" where
  "TrimSuffix s suf = (if suffix suf s then take (length s - length suf) s else s)"

fun ExtLoop :: "string \<Rightarrow> string \<Rightarrow> string" where
  "ExtLoop [] acc = ''''"
| "ExtLoop (c # front) acc =
     (if c = CHR ''/'' then ''''
      else if c = CHR ''.'' then c # acc
      else ExtLoop front (c # acc))"

definition Ext :: "string \<Rightarrow> string" where
  "Ext path = ExtLoop (rev path) ''''"

fun pathElements :: "string \<Rightarrow> string \<Rightarrow> string list" where
  "pathElements [] cur = [cur]"
| "pathElements (c # cs) cur =
     (if c = CHR ''/'' then cur # pathElements cs '''' else pathElements cs (cur @ [c]))"

fun cleanStep :: "bool \<Rightarrow> string list \<Rightarrow> string \<Rightarrow> string list" where
  "cleanStep rooted out el =
     (if el = '''' \<or> el = ''.'' then out
      else if el = ''..'' then
        (if out \<noteq> [] \<and> last out \<noteq> ''..'' then butlast out
         else if rooted then out
         else out @ [''..''])
      else out @ [el])"

fun strings_Join :: "string list \<Rightarrow> string \<Rightarrow> string" where
  "strings_Join [] sep = ''''"
| "strings_Join [x] sep = x"
| "strings_Join (x # y # ys) sep = x @ sep @ strings_Join (y # ys) sep"

definition Clean :: "string \<Rightarrow> string" where
  "Clean path =
     (if path = '''' then ''.''
      else
        let rooted = (hd path = CHR ''/'');
            out = foldl (cleanStep rooted) [] (pathElements path '''');
            res = (if rooted then ''/'' else '''') @ strings_Join out ''/''
        in if res = '''' then ''.'' else res)"

definition Join :: "string list \<Rightarrow> string" where
  "Join elem =
     (case dropWhile (\<lambda>e. e = '''') elem of
        [] \<Rightarrow> ''''
      | e # es \<Rightarrow> Clean (strings_Join (e # es) ''/''))"

definition Split :: "string \<Rightarrow> string \<times> string" where
  "Split path =
     (let file = rev (takeWhile (\<lambda>c. c \<noteq> CHR ''/'') (rev path))
      in (take (length path - length file) path, file))"

text \<open>The verb \<^verbatim>\<open>%d\<close> on an index, which is never negative.\<close>

fun itoa :: "nat \<Rightarrow> string" where
  "itoa n = (if n < 10 then [''0123456789'' ! n] else itoa (n div 10) @ [''0123456789'' ! (n mod 10)])"

declare itoa.simps [simp del]

definition RFC1123 :: string where
  "RFC1123 = ''Mon, 02 Jan 2006 15:04:05 MST''"

section \<open>The date footer\<close>

text \<open>
  Modelled from the spec: \<^verbatim>\<open>ast.AppendChild\<close> of the Markdown library, which
  puts the child last among the parent's children (section 4.3); a leaf refuses
  children with a panic.
\<close>

fun AppendChild :: "node \<Rightarrow> node \<Rightarrow> failure + node" where
  "AppendChild (Container k cs) child = Inr (Container k (cs @ [child]))"
| "AppendChild (Leaf k lit) child = Inl (Panic ''leaf node cannot have children'')"

text \<open>
  \<^verbatim>\<open>addDate\<close> changes \<^verbatim>\<open>doc\<close> in place; here it returns the changed tree. Its
  first statement reads \<^verbatim>\<open>p.metadata.DatePosted\<close>, which panics on the nil pointer.
\<close>

definition addDate :: "'fs env \<Rightarrow> node \<Rightarrow> post \<Rightarrow> failure + node" where
  "addDate e doc p =
     (case metadata p of
        None \<Rightarrow> Inl (Panic ''invalid memory address or nil pointer dereference'')
      | Some m \<Rightarrow>
          let dateStr = time_Format e (DatePosted m) RFC1123;
              footer = ''Posted: '' @ dateStr;
              hr = Leaf HorizontalRule '''';
              dateParagraph = Container Paragraph []
          in (case AppendChild dateParagraph (Leaf Text footer) of
                Inl f \<Rightarrow> Inl f
              | Inr dateParagraph1 \<Rightarrow>
                  (case AppendChild doc hr of
                     Inl f \<Rightarrow> Inl f
                   | Inr doc1 \<Rightarrow> AppendChild doc1 dateParagraph1)))"


section \<open>Templates, configuration and directories\<close>

definition readTemplate :: "'fs env \<Rightarrow> string \<Rightarrow> 'fs world \<Rightarrow> error + string" where
  "readTemplate e templateFile w =
     (case os_ReadFile e templateFile (fs w) of
        Inl err \<Rightarrow> Inl (Errorf ''reading template file %q: %w'' [templateFile] err)
      | Inr thtml \<Rightarrow> Inr thtml)"

definition makeHTML :: "'fs env \<Rightarrow> templateData \<Rightarrow> string \<Rightarrow> 'fs world \<Rightarrow> error + string" where
  "makeHTML e data templateFile w =
     (case readTemplate e templateFile w of
        Inl err \<Rightarrow> Inl (Errorf ''making HTML: %w'' [] err)
      | Inr thtml \<Rightarrow>
          (case template_Parse e thtml of
             Some err \<Rightarrow> Inl (Errorf ''making HTML: %w'' [] err)
           | None \<Rightarrow>
               (case template_Execute e thtml data of
                  Inl err \<Rightarrow> Inl (Errorf ''making HTML: %w'' [] err)
                | Inr rendered \<Rightarrow> Inr rendered)))"

text \<open>The defaults that \<^verbatim>\<open>loadConfig\<close> registers are applied inside the library's decoding.\<close>

definition loadConfig :: "'fs env \<Rightarrow> 'fs world \<Rightarrow> error + siteConfig" where
  "loadConfig e w =
     (case viper_ReadInConfig e (fs w) of
        Some err \<Rightarrow> Inl (Errorf ''loading config: %w'' [] err)
      | None \<Rightarrow>
          (case viper_UnmarshalExact e (fs w) of
             Inl err \<Rightarrow> Inl (Errorf ''loading config: %w'' [] err)
           | Inr config \<Rightarrow> Inr config))"

definition createDirs :: "'fs env \<Rightarrow> siteConfig \<Rightarrow> 'fs world \<Rightarrow> error option \<times> 'fs world" where
  "createDirs e conf w =
     (let destpath = DestinationPath conf in
      case os_MkdirAll e destpath (fs w) of
        (Some err, fs1) \<Rightarrow>
          (Some (Errorf ''creating destination path %q: %w'' [destpath] err), w\<lparr>fs := fs1\<rparr>)
      | (None, fs1) \<Rightarrow>
          let imagepath = Join [destpath, ''images''] in
          (case os_MkdirAll e imagepath fs1 of
             (Some err, fs2) \<Rightarrow>
               (Some (Errorf ''creating image path %q: %w'' [imagepath] err), w\<lparr>fs := fs2\<rparr>)
           | (None, fs2) \<Rightarrow>
               let respath = Join [destpath, ''res''] in
               (case os_MkdirAll e respath fs2 of
                  (Some err, fs3) \<Rightarrow>
                    (Some (Errorf ''creating resource path %q: %w'' [respath] err), w\<lparr>fs := fs3\<rparr>)
                | (None, fs3) \<Rightarrow> (None, w\<lparr>fs := fs3\<rparr>))))"

section \<open>Post metadata and file discovery\<close>

text \<open>
  \<^verbatim>\<open>readPostMetadata\<close>: a sidecar file that does not exist is no metadata and no error.
  Once the file is open, the deferred close runs on every return; a failing close is
  reported on standard error and the function returns what it was returning.
\<close>

definition readPostMetadata ::
  "'fs env \<Rightarrow> string \<Rightarrow> 'fs world \<Rightarrow> (error + postMetadata option) \<times> 'fs world" where
  "readPostMetadata e fname w =
     (let fnameNoExt = TrimSuffix fname (Ext fname);
          metadataPath = fnameNoExt @ ''.meta.json''
      in if (case os_Stat e metadataPath (fs w) of
               Some err \<Rightarrow> errors_Is err ErrNotExist
             | None \<Rightarrow> False)
         then (Inr None, w)
         else
           (case os_Open e metadataPath (fs w) of
              Inl err \<Rightarrow> (Inl (Errorf ''reading post metadata %q: %w'' [metadataPath] err), w)
            | Inr fp \<Rightarrow>
                let result =
                      (case json_Decode e fp of
                         Inl err \<Rightarrow> Inl (Errorf ''reading post metadata %q: %w'' [metadataPath] err)
                       | Inr pm \<Rightarrow> Inr (Some pm))
                in (case file_Close e metadataPath (fs w) of
                      Some err \<Rightarrow>
                        (result,
                         w\<lparr>stderr := stderr w @ [Diag ''closing file after reading post metadata: %v'' err]\<rparr>)
                    | None \<Rightarrow> (result, w))))"

text \<open>
  The callback \<^verbatim>\<open>mdfinder\<close> over the entries of the walk: the first entry that
  comes with an error ends the walk with that error.
\<close>

fun mdfinder :: "(string \<times> fileMode \<times> error option) list \<Rightarrow> string list \<Rightarrow> error + string list" where
  "mdfinder [] pagesmd = Inr pagesmd"
| "mdfinder ((path, info, err) # rest) pagesmd =
     (case err of
        Some er \<Rightarrow> Inl er
      | None \<Rightarrow> mdfinder rest (if Ext path = ''.md'' then pagesmd @ [path] else pagesmd))"

definition collectMarkdownFiles :: "'fs env \<Rightarrow> string \<Rightarrow> 'fs world \<Rightarrow> error + string list" where
  "collectMarkdownFiles e srcpath w =
     (case mdfinder (filepath_Walk e srcpath (fs w)) [] of
        Inl err \<Rightarrow> Inl (Errorf ''collecting markdown files in %q: %w'' [srcpath] err)
      | Inr pagesmd \<Rightarrow> Inr pagesmd)"

section \<open>The listing page\<close>

text \<open>
  The loop of \<^verbatim>\<open>renderPostsPage\<close> that builds \<^verbatim>\<open>bodystr\<close> with
  \<^verbatim>\<open>fmt.Sprintf("%s%d. [%s](%s)\n    - %s\n", bodystr, idx, p.title, p.url, p.summary)\<close>.
\<close>

fun listingLoop :: "post list \<Rightarrow> nat \<Rightarrow> string \<Rightarrow> string" where
  "listingLoop [] idx bodystr = bodystr"
| "listingLoop (p # ps) idx bodystr =
     listingLoop ps (idx + 1)
       (bodystr @ itoa idx @ ''. ['' @ title p @ ''](''  @ url p @ '')'' @ [CHR 0x0A] @
        ''    - '' @ summary p @ [CHR 0x0A])"

definition renderPostsPage ::
  "'fs env \<Rightarrow> post list \<Rightarrow> templateData \<Rightarrow> string \<Rightarrow> string \<Rightarrow> 'fs world \<Rightarrow> error option \<times> 'fs world" where
  "renderPostsPage e posts data templateFile destpath w =
     (if length posts > 0 then
        let bodystr = listingLoop posts 0 '''';
            doc = parseMD e bodystr;
            data1 = data\<lparr>Body := markdown_Render e doc\<rparr>;
            outpath = Join [destpath, ''posts.html'']
        in (case makeHTML e data1 templateFile w of
              Inl err \<Rightarrow> (Some (Errorf ''making html for posts page: %w'' [] err), w)
            | Inr htmlData \<Rightarrow>
                (case os_WriteFile e outpath htmlData (fs w) of
                   (Some err, fs1) \<Rightarrow>
                     (Some (Errorf ''writing posts page %q: %w'' [outpath] err), w\<lparr>fs := fs1\<rparr>)
                 | (None, fs1) \<Rightarrow> (None, w\<lparr>fs := fs1\<rparr>)))
      else (None, w))"


section \<open>Rendering the pages\<close>

text \<open>
  The destination path of a source file (the four assignments to \<^verbatim>\<open>outpath\<close> at
  the head of the loop body) and the URL of a post (the two assignments to
  \<^verbatim>\<open>postURL\<close>).
\<close>

definition destinationPath :: "string \<Rightarrow> string \<Rightarrow> string \<Rightarrow> string" where
  "destinationPath srcpath destpath fname =
     (let outpath = TrimPrefix fname srcpath;
          outpath1 = TrimSuffix outpath (Ext outpath);
          outpath2 = outpath1 @ ''.html''
      in Join [destpath, outpath2])"

definition postURLOf :: "string \<Rightarrow> string \<Rightarrow> string" where
  "postURLOf destpath outpath =
     (let postURL = TrimPrefix outpath destpath
      in TrimPrefix postURL ''/'')"

text \<open>
  One turn of the loop over \<^verbatim>\<open>pagesmd\<close>. The variables that live across turns
  are \<^verbatim>\<open>data\<close>, \<^verbatim>\<open>posts\<close> and \<^verbatim>\<open>pagelist\<close>. The error of
  \<^verbatim>\<open>filepath.Rel\<close> is dropped by the program, which then holds the empty path.
\<close>

definition renderPage ::
  "'fs env \<Rightarrow> siteConfig \<Rightarrow> nat \<Rightarrow> string \<Rightarrow> templateData \<times> post list \<times> string list \<Rightarrow> 'fs world
     \<Rightarrow> (failure + templateData \<times> post list \<times> string list) \<times> 'fs world" where
  "renderPage e conf idx fname st w =
     (case st of (data, posts, pagelist) \<Rightarrow>
      let srcpath = SourcePath conf;
          destpath = DestinationPath conf;
          templateFile = PageTemplateFile conf;
          outpath = destinationPath srcpath destpath fname
      in (case os_ReadFile e fname (fs w) of
            Inl err \<Rightarrow> (Inl (Err (Errorf ''rendering pages: reading file %q: %w'' [fname] err)), w)
          | Inr pagemd \<Rightarrow>
              let doc = parseMD e pagemd in
              (case (if regexp_MatchString e (PostPattern conf) fname then
                       let p = parsePost e pagemd;
                           p1 = p\<lparr>url := postURLOf destpath outpath\<rparr>
                       in (case readPostMetadata e fname w of
                             (Inl err, w1) \<Rightarrow> (Inl (Err (Errorf ''rendering pages: %w'' [] err)), w1)
                           | (Inr md, w1) \<Rightarrow>
                               let p2 = p1\<lparr>metadata := md\<rparr>;
                                   posts1 = posts @ [p2]
                               in (case addDate e doc p2 of
                                     Inl f \<Rightarrow> (Inl f, w1)
                                   | Inr doc1 \<Rightarrow> (Inr (doc1, posts1), w1)))
                     else (Inr (doc, posts), w)) of
                 (Inl f, w1) \<Rightarrow> (Inl f, w1)
               | (Inr (doc1, posts1), w1) \<Rightarrow>
                   let data1 = data\<lparr>Body := markdown_Render e doc1\<rparr>;
                       outpathpar = fst (Split outpath)
                   in (case (if outpathpar \<noteq> destpath then os_MkdirAll e outpathpar (fs w1)
                             else (None, fs w1)) of
                         (Some err, fs2) \<Rightarrow>
                           (Inl (Err (Errorf ''rendering pages: creating path %q: %w'' [outpathpar] err)),
                            w1\<lparr>fs := fs2\<rparr>)
                       | (None, fs2) \<Rightarrow>
                           let w2 = w1\<lparr>fs := fs2\<rparr>;
                               data2 = data1\<lparr>RelRoot :=
                                 (case filepath_Rel e outpathpar destpath of
                                    Inl err \<Rightarrow> ''''
                                  | Inr rel \<Rightarrow> rel)\<rparr>
                           in (case makeHTML e data2 templateFile w2 of
                                 Inl err \<Rightarrow> (Inl (Err (Errorf ''rending pages: %w'' [] err)), w2)
                               | Inr htmlData \<Rightarrow>
                                   (case os_WriteFile e outpath htmlData (fs w2) of
                                      (Some err, fs3) \<Rightarrow>
                                        (Inl (Err (Errorf ''rendering pages: writing html file %q: %w''
                                                     [outpath] err)),
                                         w2\<lparr>fs := fs3\<rparr>)
                                    | (None, fs3) \<Rightarrow>
                                        (Inr (data2, posts1, pagelist[idx := outpath]),
                                         w2\<lparr>fs := fs3\<rparr>)))))))"

fun renderPagesLoop ::
  "'fs env \<Rightarrow> siteConfig \<Rightarrow> nat \<Rightarrow> string list \<Rightarrow> templateData \<times> post list \<times> string list \<Rightarrow> 'fs world
     \<Rightarrow> (failure + templateData \<times> post list \<times> string list) \<times> 'fs world" where
  "renderPagesLoop e conf idx [] st w = (Inr st, w)"
| "renderPagesLoop e conf idx (fname # rest) st w =
     (case renderPage e conf idx fname st w of
        (Inl f, w1) \<Rightarrow> (Inl f, w1)
      | (Inr st1, w1) \<Rightarrow> renderPagesLoop e conf (idx + 1) rest st1 w1)"

text \<open>
  \<^verbatim>\<open>renderPages\<close>. Its last call, to \<^verbatim>\<open>renderPostsPage\<close>, is a statement of
  its own: the error that call returns is not looked at.
\<close>

definition renderPages :: "'fs env \<Rightarrow> siteConfig \<Rightarrow> 'fs world \<Rightarrow> (failure + unit) \<times> 'fs world" where
  "renderPages e conf w =
     (let srcpath = SourcePath conf;
          data = \<lparr>SiteName = siteConfig.SiteName conf, Body = '''', RelRoot = ''''\<rparr>
      in (case collectMarkdownFiles e srcpath w of
            Inl err \<Rightarrow> (Inl (Err (Errorf ''rendering pages: %w'' [] err)), w)
          | Inr pagesmd \<Rightarrow>
              let npages = length pagesmd;
                  pagelist = replicate npages '''';
                  destpath = DestinationPath conf;
                  templateFile = PageTemplateFile conf
              in (case regexp_Compile e (PostPattern conf) of
                    Some err \<Rightarrow> (Inl (Err (Errorf ''rendering pages: %w'' [] err)), w)
                  | None \<Rightarrow>
                      (case renderPagesLoop e conf 0 pagesmd (data, [], pagelist) w of
                         (Inl f, w1) \<Rightarrow> (Inl f, w1)
                       | (Inr (data1, posts, pagelist1), w1) \<Rightarrow>
                           (Inr (), snd (renderPostsPage e posts data1 templateFile destpath w1))))))"

section \<open>Resources and the program\<close>

definition copyFile :: "'fs env \<Rightarrow> string \<Rightarrow> string \<Rightarrow> 'fs world \<Rightarrow> error option \<times> 'fs world" where
  "copyFile e srcName dstName w =
     (case os_ReadFile e srcName (fs w) of
        Inl err \<Rightarrow> (Some (Errorf ''reading file %q for copy: %w'' [srcName] err), w)
      | Inr data \<Rightarrow>
          (case os_WriteFile e dstName data (fs w) of
             (Some err, fs1) \<Rightarrow>
               (Some (Errorf ''writing file %q for copy: %w'' [dstName] err), w\<lparr>fs := fs1\<rparr>)
           | (None, fs1) \<Rightarrow> (None, w\<lparr>fs := fs1\<rparr>)))"

text \<open>
  The callback \<^verbatim>\<open>walker\<close> of \<^verbatim>\<open>copyResources\<close> over the entries of the walk of
  the resource directory, which are those of the file system the walk starts in.
\<close>

fun walker ::
  "'fs env \<Rightarrow> string \<Rightarrow> (string \<times> fileMode \<times> error option) list \<Rightarrow> 'fs world \<Rightarrow> error option \<times> 'fs world" where
  "walker e dstroot [] w = (None, w)"
| "walker e dstroot ((srcloc, info, err) # rest) w =
     (case err of
        Some er \<Rightarrow> (Some er, w)
      | None \<Rightarrow>
          (case (if info = ModeRegular then
                   (case copyFile e srcloc (Join [dstroot, srcloc]) w of
                      (Some er, w1) \<Rightarrow> (Some (Errorf ''copying resources: %w'' [] er), w1)
                    | (None, w1) \<Rightarrow> (None, w1))
                 else if info = ModeDir then
                   (case os_MkdirAll e (Join [dstroot, srcloc]) (fs w) of
                      (Some er, fs1) \<Rightarrow>
                        (Some (Errorf ''copying resources: creating path %q: %w''
                                 [Join [dstroot, srcloc]] er),
                         w\<lparr>fs := fs1\<rparr>)
                    | (None, fs1) \<Rightarrow> (None, w\<lparr>fs := fs1\<rparr>))
                 else (None, w)) of
             (Some er, w1) \<Rightarrow> (Some er, w1)
           | (None, w1) \<Rightarrow> walker e dstroot rest w1))"

definition copyResources :: "'fs env \<Rightarrow> siteConfig \<Rightarrow> 'fs world \<Rightarrow> error option \<times> 'fs world" where
  "copyResources e conf w =
     walker e (DestinationPath conf) (filepath_Walk e (ResourcePath conf) (fs w)) w"

text \<open>\<^verbatim>\<open>die\<close> writes its message to standard error and exits with status 1.\<close>

definition die :: "string \<Rightarrow> error \<Rightarrow> 'fs world \<Rightarrow> nat \<times> 'fs world" where
  "die format err w = (1, w\<lparr>stderr := stderr w @ [Diag format err]\<rparr>)"

text \<open>
  \<^verbatim>\<open>main\<close>, after the flags are parsed: the result is the exit status of the process
  and the world it leaves. A panic that reaches the top prints its trace and exits with
  status 2.
\<close>

definition main :: "'fs env \<Rightarrow> bool \<Rightarrow> 'fs world \<Rightarrow> nat \<times> 'fs world" where
  "main e printver w =
     (if printver then (0, w)
      else
        (case loadConfig e w of
           Inl err \<Rightarrow> die ''error: %v'' err w
         | Inr conf \<Rightarrow>
             (case createDirs e conf w of
                (Some err, w1) \<Rightarrow> die ''error: %v'' err w1
              | (None, w1) \<Rightarrow>
                  (case renderPages e conf w1 of
                     (Inl (Err err), w2) \<Rightarrow> die ''error: %v'' err w2
                   | (Inl (Panic msg), w2) \<Rightarrow> (2, w2\<lparr>stderr := stderr w2 @ [PanicTrace msg]\<rparr>)
                   | (Inr u, w2) \<Rightarrow>
                       (case copyResources e conf w2 of
                          (Some err, w3) \<Rightarrow> die ''error: %v'' err w3
                        | (None, w3) \<Rightarrow> (0, w3))))))"


section \<open>What the specification says of a document tree\<close>

text \<open>
  The nodes of a tree in document order (pre-order, depth first), and the literal text
  of a node: the literals of the leaves below it, in that order, with nothing between
  them. These follow the words of the specification and are compared with the code
  below.
\<close>

fun preorder :: "node \<Rightarrow> node list"
  and preorderList :: "node list \<Rightarrow> node list"
where
  "preorder (Leaf k l) = [Leaf k l]"
| "preorder (Container k cs) = Container k cs # preorderList cs"
| "preorderList [] = []"
| "preorderList (n # ns) = preorder n @ preorderList ns"

fun isParagraph :: "node \<Rightarrow> bool" where
  "isParagraph (Container Paragraph cs) = True"
| "isParagraph n = False"

fun isHeading1 :: "node \<Rightarrow> bool" where
  "isHeading1 (Container (Heading level) cs) = (level = 1)"
| "isHeading1 n = False"

fun leafLiteral :: "node \<Rightarrow> string" where
  "leafLiteral (Leaf k l) = l"
| "leafLiteral (Container k cs) = ''''"

definition literalText :: "node \<Rightarrow> string" where
  "literalText n = concat (map leafLiteral (tl (preorder n)))"

text \<open>The entry of the listing for the post at index \<open>idx\<close>.\<close>

definition listingEntry :: "nat \<Rightarrow> post \<Rightarrow> string" where
  "listingEntry idx p =
     itoa idx @ ''. ['' @ title p @ ''](''  @ url p @ '')'' @ [CHR 0x0A] @ ''    - '' @ summary p @ [CHR 0x0A]"

text \<open>
  The visits of a walk that only enters nodes: the visitor runs over a list of nodes
  until it answers \<^const>\<open>Terminate\<close>.
\<close>

fun scan :: "node list \<Rightarrow> post \<Rightarrow> WalkStatus \<times> post" where
  "scan [] p = (GoToNext, p)"
| "scan (n # ns) p =
     (case visitor n True p of
        (status, p1) \<Rightarrow> if status = Terminate then (Terminate, p1) else scan ns p1)"

section \<open>A small world for concrete runs\<close>

text \<open>
  A file system in memory, with the files' contents and the names that are
  directories, and stand-ins for the libraries: a parser given as a function, a
  renderer that keeps the literal text, a template engine that puts the body after the
  template's text, patterns that are plain text, one fixed date.
\<close>

record memfs =
  files :: "(string \<times> string) list"
  dirs :: "string list"

fun occursIn :: "string \<Rightarrow> string \<Rightarrow> bool" where
  "occursIn pat [] = (pat = [])"
| "occursIn pat (c # cs) = (prefix pat (c # cs) \<or> occursIn pat cs)"

definition exampleDate :: Time where
  "exampleDate = \<lparr>sec = 1672531200, nsec = 0, loc = ''UTC''\<rparr>"

definition exampleConf :: siteConfig where
  "exampleConf =
     \<lparr>siteConfig.SiteName = ''site'', SourcePath = ''pages-md'', DestinationPath = ''html'',
      PageTemplateFile = ''templates/template.html'', ResourcePath = ''res'',
      PostPattern = ''20230101-''\<rparr>"

definition exampleEnv :: "(string \<Rightarrow> node) \<Rightarrow> memfs env" where
  "exampleEnv parse =
     \<lparr>os_ReadFile = (\<lambda>name m. case map_of (files m) name of
                                  Some d \<Rightarrow> Inr d
                                | None \<Rightarrow> Inl ErrNotExist),
      os_WriteFile = (\<lambda>name d m. if name \<in> set (dirs m) then (Some (ErrOther ''is a directory''), m)
                                  else (None, m\<lparr>files := (name, d) # files m\<rparr>)),
      os_MkdirAll = (\<lambda>name m. case map_of (files m) name of
                                  Some d \<Rightarrow> (Some (ErrOther ''not a directory''), m)
                                | None \<Rightarrow> (None, m\<lparr>dirs := name # dirs m\<rparr>)),
      os_Stat = (\<lambda>name m. case map_of (files m) name of
                              Some d \<Rightarrow> None
                            | None \<Rightarrow> if name \<in> set (dirs m) then None else Some ErrNotExist),
      os_Open = (\<lambda>name m. case map_of (files m) name of
                              Some d \<Rightarrow> Inr d
                            | None \<Rightarrow> Inl ErrNotExist),
      file_Close = (\<lambda>name m. None),
      filepath_Walk = (\<lambda>root m. map (\<lambda>f. (fst f, ModeRegular, None))
                                     (filter (\<lambda>f. prefix root (fst f)) (files m))),
      filepath_Rel = (\<lambda>base targ. Inr ''.''),
      parser_Parse = parse,
      markdown_Render = childLiterals,
      template_Parse = (\<lambda>thtml. None),
      template_Execute = (\<lambda>thtml data. Inr (thtml @ Body data)),
      regexp_Compile = (\<lambda>pat. None),
      regexp_MatchString = occursIn,
      json_Decode = (\<lambda>bytes. Inr \<lparr>DatePosted = exampleDate, DatesEdited = []\<rparr>),
      time_Format = (\<lambda>t layout. ''Sun, 01 Jan 2023 00:00:00 UTC''),
      viper_ReadInConfig = (\<lambda>m. None),
      viper_UnmarshalExact = (\<lambda>m. Inr exampleConf)\<rparr>"


text \<open>
  A document with a title and a paragraph, and five worlds: a post without its sidecar
  file, the same post with it, the same again where \<^verbatim>\<open>html/posts.html\<close> is a
  directory and cannot be written as a file, the same where the page of the post is
  such a directory, and a site of one page that is no post.
\<close>

definition helloDoc :: node where
  "helloDoc =
     Container Document
       [Container (Heading 1) [Leaf Text ''Hello''],
        Container Paragraph [Leaf Text ''First words.'']]"

definition worldNoSidecar :: "memfs world" where
  "worldNoSidecar =
     \<lparr>fs = \<lparr>files = [(''pages-md/blog/20230101-hello.md'', ''# Hello''),
                        (''templates/template.html'', ''<html>'')],
             dirs = []\<rparr>,
      stderr = []\<rparr>"

definition worldSidecar :: "memfs world" where
  "worldSidecar =
     \<lparr>fs = \<lparr>files = [(''pages-md/blog/20230101-hello.md'', ''# Hello''),
                        (''pages-md/blog/20230101-hello.meta.json'', ''posted 2023-01-01''),
                        (''templates/template.html'', ''<html>'')],
             dirs = []\<rparr>,
      stderr = []\<rparr>"

definition worldPostsDir :: "memfs world" where
  "worldPostsDir =
     \<lparr>fs = \<lparr>files = [(''pages-md/blog/20230101-hello.md'', ''# Hello''),
                        (''pages-md/blog/20230101-hello.meta.json'', ''posted 2023-01-01''),
                        (''templates/template.html'', ''<html>'')],
             dirs = [''html/posts.html'']\<rparr>,
      stderr = []\<rparr>"

definition worldPageDir :: "memfs world" where
  "worldPageDir =
     \<lparr>fs = \<lparr>files = [(''pages-md/blog/20230101-hello.md'', ''# Hello''),
                        (''pages-md/blog/20230101-hello.meta.json'', ''posted 2023-01-01''),
                        (''templates/template.html'', ''<html>'')],
             dirs = [''html/blog/20230101-hello.html'']\<rparr>,
      stderr = []\<rparr>"

definition worldNoPosts :: "memfs world" where
  "worldNoPosts =
     \<lparr>fs = \<lparr>files = [(''pages-md/about.md'', ''# Hello''),
                        (''templates/template.html'', ''<html>'')],
             dirs = []\<rparr>,
      stderr = []\<rparr>"


definition oneParagraph :: "string \<Rightarrow> node" where
  "oneParagraph md = Container Document [Container Paragraph [Leaf Text md]]"

section \<open>The walk of \<open>parsePost\<close> visits the nodes in document order\<close>

lemma childLiterals_concat:
  "childLiterals n = concat (map leafLiteral (tl (preorder n)))"
  "childLiteralsLoop ns lit = lit @ concat (map leafLiteral (preorderList ns))"
  by (induction n and ns lit rule: childLiterals_childLiteralsLoop.induct) simp_all

lemma childLiterals_literalText: "childLiterals n = literalText n"
  by (simp add: literalText_def childLiterals_concat)

lemma visitor_status: "fst (visitor n b p) = (if isParagraph n then Terminate else GoToNext)"
  by (cases "(n, b, p)" rule: visitor.cases) simp_all

lemma visitor_twice: "snd (visitor n b (snd (visitor n b' p))) = snd (visitor n b' p)"
  by (cases "(n, b, p)" rule: visitor.cases) auto

lemma scan_append:
  "scan (xs @ ys) p =
     (case scan xs p of
        (status, p1) \<Rightarrow> if status = Terminate then (Terminate, p1) else scan ys p1)"
  by (induction xs arbitrary: p) (auto split: prod.splits)

lemma scan_status: "fst (scan ns p) = Terminate \<or> fst (scan ns p) = GoToNext"
  by (induction ns arbitrary: p) (auto split: prod.splits)

lemma visitor_title_kept: "title p \<noteq> '''' \<Longrightarrow> title (snd (visitor n b p)) = title p"
  by (cases "(n, b, p)" rule: visitor.cases) auto

lemma scan_title_kept: "title p \<noteq> '''' \<Longrightarrow> title (snd (scan ns p)) = title p"
proof (induction ns arbitrary: p)
  case Nil
  then show ?case by simp
next
  case (Cons n ns)
  obtain status p1 where v: "visitor n True p = (status, p1)"
    by (cases "visitor n True p")
  have t: "title p1 = title p"
    using visitor_title_kept [OF Cons.prems, of n True] v by simp
  show ?case
    using v t Cons.IH [of p1] Cons.prems by simp
qed

text \<open>
  When a container is left, its second visit changes nothing: a paragraph has ended
  the walk before, and a heading finds the title it set, or sets the empty title
  again.
\<close>

lemma visitor_leaving:
  assumes "fst (visitor n True p) \<noteq> Terminate"
    and "title (snd (visitor n True p)) \<noteq> '''' \<longrightarrow> title p2 = title (snd (visitor n True p))"
  shows "visitor n b p2 = (GoToNext, p2)"
  using assms by (cases "(n, b, p)" rule: visitor.cases) (auto split: if_splits)

lemma WalkChildren_scan:
  assumes "\<And>n p. n \<in> set ns \<Longrightarrow> Walk n visitor p = scan (preorder n) p"
  shows "WalkChildren ns visitor p = scan (preorderList ns) p"
  using assms
proof (induction ns arbitrary: p)
  case Nil
  then show ?case by simp
next
  case (Cons n ns)
  have first: "Walk n visitor p = scan (preorder n) p"
    using Cons.prems by simp
  have others: "\<And>q. WalkChildren ns visitor q = scan (preorderList ns) q"
    using Cons.IH Cons.prems by simp
  show ?case
    by (simp add: first others scan_append split: prod.splits)
qed

lemma Walk_scan: "Walk n visitor p = scan (preorder n) p"
proof (induction n arbitrary: p)
  case (Leaf k lit)
  show ?case by (simp split: prod.splits)
next
  case (Container k cs)
  let ?n = "Container k cs"
  have kids: "\<And>q. WalkChildren cs visitor q = scan (preorderList cs) q"
    using Container.IH by (rule WalkChildren_scan)
  obtain status p1 where v: "visitor ?n True p = (status, p1)"
    by (cases "visitor ?n True p")
  show ?case
  proof (cases "status = Terminate")
    case True
    have "snd (visitor ?n False p1) = p1"
      using visitor_twice [of ?n False True p] v by simp
    then show ?thesis using v True by simp
  next
    case False
    have noskip: "status \<noteq> SkipChildren"
      using visitor_status [of ?n True p] v by (simp split: if_splits)
    obtain status2 p2 where c: "scan (preorderList cs) p1 = (status2, p2)"
      by (cases "scan (preorderList cs) p1")
    have keep: "title p1 \<noteq> '''' \<longrightarrow> title p2 = title p1"
      using scan_title_kept [of p1 "preorderList cs"] c by simp
    have leave: "visitor ?n False p2 = (GoToNext, p2)"
      using visitor_leaving [of ?n p p2 False] v False keep by simp
    have st2: "status2 = Terminate \<or> status2 = GoToNext"
      using scan_status [of "preorderList cs" p1] c by simp
    show ?thesis
      using v False noskip c leave st2 by (auto simp add: kids)
  qed
qed

lemma scan_summary:
  "summary (snd (scan ns p)) =
     (case find isParagraph ns of None \<Rightarrow> summary p | Some para \<Rightarrow> childLiterals para)"
proof (induction ns arbitrary: p)
  case Nil
  show ?case by simp
next
  case (Cons n ns)
  show ?case
    by (cases "(n, True, p)" rule: visitor.cases) (simp_all add: Cons.IH cong: option.case_cong)
qed

lemma scan_fst:
  "fst (scan ns p) = (case find isParagraph ns of None \<Rightarrow> GoToNext | Some para \<Rightarrow> Terminate)"
proof (induction ns arbitrary: p)
  case Nil
  show ?case by simp
next
  case (Cons n ns)
  show ?case
    by (cases "(n, True, p)" rule: visitor.cases) (simp_all add: Cons.IH cong: option.case_cong)
qed

lemma scan_title:
  "title (snd (scan ns p)) =
     (if title p \<noteq> '''' then title p
      else case find (\<lambda>n. isHeading1 n \<and> childLiterals n \<noteq> '''')
                  (takeWhile (\<lambda>n. \<not> isParagraph n) ns) of
             None \<Rightarrow> '''' | Some h \<Rightarrow> childLiterals h)"
proof (induction ns arbitrary: p)
  case Nil
  show ?case by simp
next
  case (Cons n ns)
  show ?case
    by (cases "(n, True, p)" rule: visitor.cases) (simp_all add: Cons.IH cong: option.case_cong)
qed

lemma scan_upto_paragraph:
  "scan ns p =
     scan (takeWhile (\<lambda>n. \<not> isParagraph n) ns @
           (case find isParagraph ns of None \<Rightarrow> [] | Some para \<Rightarrow> [para])) p"
proof (induction ns arbitrary: p)
  case Nil
  show ?case by simp
next
  case (Cons n ns)
  show ?case
    by (cases "(n, True, p)" rule: visitor.cases) (simp_all add: Cons.IH)
qed

lemma zeroPost_fields: "title zeroPost = ''''" "summary zeroPost = ''''"
  by (simp_all add: zeroPost_def)

lemma find_weaker_None:
  "find P xs = None \<Longrightarrow> find (\<lambda>x. P x \<and> Q x) (takeWhile R xs) = None"
  by (induction xs) (auto split: if_splits)


section \<open>Title and summary of a post\<close>

text \<open>
  Claim C5. For every document tree that the parser gives, the summary that
  \<open>parsePost\<close> extracts is the literal text of the first paragraph in document order
  (the literals of the leaves below it, in order, nothing between them), and the empty
  string when the tree has no paragraph. The walk ends at that paragraph: it reports
  \<open>Terminate\<close> exactly when the tree has a paragraph, its result is that of visiting
  the nodes before the first paragraph and then that paragraph, and nothing after it;
  the visitor answers \<open>Terminate\<close> on a paragraph and \<open>GoToNext\<close> on a heading.
\<close>

theorem parsePost_summary:
  "summary (parsePost e md) =
     (case find isParagraph (preorder (parseMD e md)) of
        None \<Rightarrow> ''''
      | Some para \<Rightarrow> literalText para)
   \<and> fst (Walk (parseMD e md) visitor zeroPost) =
     (case find isParagraph (preorder (parseMD e md)) of
        None \<Rightarrow> GoToNext
      | Some para \<Rightarrow> Terminate)
   \<and> parsePost e md =
     snd (scan (takeWhile (\<lambda>n. \<not> isParagraph n) (preorder (parseMD e md)) @
                (case find isParagraph (preorder (parseMD e md)) of
                   None \<Rightarrow> []
                 | Some para \<Rightarrow> [para])) zeroPost)
   \<and> fst (visitor (Container Paragraph cs) entering p) = Terminate
   \<and> fst (visitor (Container (Heading level) cs) entering p) = GoToNext"
proof -
  let ?root = "parseMD e md"
  have walk: "Walk ?root visitor zeroPost = scan (preorder ?root) zeroPost"
    by (rule Walk_scan)
  have s: "summary (parsePost e md) =
      (case find isParagraph (preorder ?root) of None \<Rightarrow> '''' | Some para \<Rightarrow> literalText para)"
    by (simp add: parsePost_def WalkFunc_def walk scan_summary zeroPost_fields
        childLiterals_literalText cong: option.case_cong)
  have t: "fst (Walk ?root visitor zeroPost) =
      (case find isParagraph (preorder ?root) of None \<Rightarrow> GoToNext | Some para \<Rightarrow> Terminate)"
    by (simp add: walk scan_fst)
  have u: "parsePost e md =
      snd (scan (takeWhile (\<lambda>n. \<not> isParagraph n) (preorder ?root) @
                 (case find isParagraph (preorder ?root) of None \<Rightarrow> [] | Some para \<Rightarrow> [para]))
             zeroPost)"
    using scan_upto_paragraph [of "preorder ?root" zeroPost]
    by (simp add: parsePost_def WalkFunc_def walk)
  show ?thesis
    using s t u by simp
qed

text \<open>
  Claim C4, as the code has it. The title that \<open>parsePost\<close> extracts is the literal
  text of the first level-1 heading with non-empty literal text among the nodes that
  come, in document order, before the first paragraph, where the walk ends; it is the
  empty string when there is no such heading, and so whenever the tree has no level-1
  heading.
\<close>

theorem parsePost_title:
  "title (parsePost e md) =
     (case find (\<lambda>n. isHeading1 n \<and> literalText n \<noteq> '''')
                (takeWhile (\<lambda>n. \<not> isParagraph n) (preorder (parseMD e md))) of
        None \<Rightarrow> ''''
      | Some h \<Rightarrow> literalText h)
   \<and> (find isHeading1 (preorder (parseMD e md)) = None \<longrightarrow> title (parsePost e md) = '''')"
proof -
  let ?root = "parseMD e md"
  have walk: "Walk ?root visitor zeroPost = scan (preorder ?root) zeroPost"
    by (rule Walk_scan)
  have t: "title (parsePost e md) =
      (case find (\<lambda>n. isHeading1 n \<and> literalText n \<noteq> '''')
                 (takeWhile (\<lambda>n. \<not> isParagraph n) (preorder ?root)) of
         None \<Rightarrow> '''' | Some h \<Rightarrow> literalText h)"
    by (simp add: parsePost_def WalkFunc_def walk scan_title zeroPost_fields
        childLiterals_literalText cong: option.case_cong)
  have n: "find isHeading1 (preorder ?root) = None \<longrightarrow> title (parsePost e md) = ''''"
    by (simp add: t find_weaker_None)
  show ?thesis
    using t n by simp
qed

text \<open>
  A document of a level-2 heading and a paragraph has no level-1 heading, and its title
  is empty.
\<close>

theorem parsePost_title_witness:
  "find isHeading1
     (preorder (parseMD (exampleEnv (\<lambda>md. Container Document
        [Container (Heading 2) [Leaf Text ''Sub''],
         Container Paragraph [Leaf Text ''Summary text.'']])) ''## Sub'')) = None
   \<and> title (parsePost (exampleEnv (\<lambda>md. Container Document
        [Container (Heading 2) [Leaf Text ''Sub''],
         Container Paragraph [Leaf Text ''Summary text.'']])) ''## Sub'') = ''''"
proof -
  let ?e = "exampleEnv (\<lambda>md. Container Document
        [Container (Heading 2) [Leaf Text ''Sub''],
         Container Paragraph [Leaf Text ''Summary text.'']])"
  have h: "find isHeading1 (preorder (parseMD ?e ''## Sub'')) = None"
    by (simp add: parseMD_def exampleEnv_def)
  have "find isHeading1 (preorder (parseMD ?e ''## Sub'')) = None
      \<longrightarrow> title (parsePost ?e ''## Sub'') = ''''"
    using parsePost_title [of ?e "''## Sub''"] by (rule conjunct2)
  then show ?thesis
    using h by blast
qed

text \<open>
  Claim C4 as it is written fails twice. In a document whose paragraph comes before
  its level-1 heading the walk ends at the paragraph, and the title stays empty though
  the first level-1 heading reads \<open>Title\<close>. In a document whose first level-1 heading
  has no text the second level-1 heading gives the title, \<open>B\<close>, though the first
  level-1 heading reads the empty string.
\<close>

theorem parsePost_title_counterexample:
  "title (parsePost (exampleEnv (\<lambda>md. Container Document
      [Container Paragraph [Leaf Text ''intro''],
       Container (Heading 1) [Leaf Text ''Title'']])) ''intro'')
   \<noteq> (case find isHeading1 (preorder (parseMD (exampleEnv (\<lambda>md. Container Document
            [Container Paragraph [Leaf Text ''intro''],
             Container (Heading 1) [Leaf Text ''Title'']])) ''intro'')) of
         None \<Rightarrow> ''''
       | Some h \<Rightarrow> literalText h)
   \<and> title (parsePost (exampleEnv (\<lambda>md. Container Document
      [Container (Heading 1) [],
       Container (Heading 1) [Leaf Text ''B'']])) ''#'')
   \<noteq> (case find isHeading1 (preorder (parseMD (exampleEnv (\<lambda>md. Container Document
            [Container (Heading 1) [],
             Container (Heading 1) [Leaf Text ''B'']])) ''#'')) of
         None \<Rightarrow> ''''
       | Some h \<Rightarrow> literalText h)"
  by (simp add: parsePost_def parseMD_def exampleEnv_def WalkFunc_def zeroPost_def literalText_def)


section \<open>The body of the listing\<close>

lemma listingLoop_entries:
  "listingLoop ps idx bodystr =
     bodystr @ concat (map (\<lambda>(i, p). listingEntry i p) (zip [idx ..< idx + length ps] ps))"
proof (induction ps arbitrary: idx bodystr)
  case Nil
  show ?case by simp
next
  case (Cons p ps)
  have "[idx ..< idx + length (p # ps)] = idx # [Suc idx ..< Suc idx + length ps]"
    by (simp add: upt_rec)
  then show ?case
    by (simp add: Cons.IH listingEntry_def)
qed

text \<open>
  Claim C6. The body that \<open>renderPostsPage\<close> builds for a post collection is the
  concatenation, in the order of the collection, of one entry per post; the entry of
  the post at index \<open>idx\<close>, counted from zero, is the index in decimal, a dot and a
  space, the title in square brackets, the URL in parentheses, a line break, four
  spaces, a dash, a space, the summary and a line break. For the two posts A and B of
  the specification the body is the text the specification gives. For a collection
  that is not empty, \<open>renderPostsPage\<close> hands exactly this body to the parser, renders
  the tree into the page body and writes the page to \<^verbatim>\<open>posts.html\<close> under the
  destination root.
\<close>

theorem listing_body:
  "listingLoop posts 0 '''' =
     concat (map (\<lambda>(idx, p). listingEntry idx p) (zip [0 ..< length posts] posts))
   \<and> listingEntry idx p =
     itoa idx @ ''. ['' @ title p @ ''](''  @ url p @ '')\<newline>    - '' @ summary p @ ''\<newline>''
   \<and> listingLoop
       [\<lparr>title = ''A'', summary = ''sa'', url = ''a.html'', metadata = None\<rparr>,
        \<lparr>title = ''B'', summary = ''sb'', url = ''b.html'', metadata = None\<rparr>] 0 ''''
     = ''0. [A](a.html)\<newline>    - sa\<newline>1. [B](b.html)\<newline>    - sb\<newline>''
   \<and> (posts \<noteq> [] \<longrightarrow>
        renderPostsPage e posts data templateFile destpath w =
          (case makeHTML e
                  (data\<lparr>Body := markdown_Render e (parseMD e
                     (concat (map (\<lambda>(idx, p). listingEntry idx p)
                                (zip [0 ..< length posts] posts))))\<rparr>)
                  templateFile w of
             Inl err \<Rightarrow> (Some (Errorf ''making html for posts page: %w'' [] err), w)
           | Inr htmlData \<Rightarrow>
               (case os_WriteFile e (Join [destpath, ''posts.html'']) htmlData (fs w) of
                  (Some err, fs1) \<Rightarrow>
                    (Some (Errorf ''writing posts page %q: %w'' [Join [destpath, ''posts.html'']] err),
                     w\<lparr>fs := fs1\<rparr>)
                | (None, fs1) \<Rightarrow> (None, w\<lparr>fs := fs1\<rparr>))))"
proof -
  have a: "listingLoop posts 0 '''' =
     concat (map (\<lambda>(idx, p). listingEntry idx p) (zip [0 ..< length posts] posts))"
    using listingLoop_entries [of posts 0 "''''"] by simp
  have b: "listingEntry idx p =
     itoa idx @ ''. ['' @ title p @ ''](''  @ url p @ '')\<newline>    - '' @ summary p @ ''\<newline>''"
    by (simp add: listingEntry_def)
  have c: "listingLoop
       [\<lparr>title = ''A'', summary = ''sa'', url = ''a.html'', metadata = None\<rparr>,
        \<lparr>title = ''B'', summary = ''sb'', url = ''b.html'', metadata = None\<rparr>] 0 ''''
     = ''0. [A](a.html)\<newline>    - sa\<newline>1. [B](b.html)\<newline>    - sb\<newline>''"
    by (simp add: itoa.simps)
  have d: "posts \<noteq> [] \<longrightarrow>
        renderPostsPage e posts data templateFile destpath w =
          (case makeHTML e
                  (data\<lparr>Body := markdown_Render e (parseMD e
                     (concat (map (\<lambda>(idx, p). listingEntry idx p)
                                (zip [0 ..< length posts] posts))))\<rparr>)
                  templateFile w of
             Inl err \<Rightarrow> (Some (Errorf ''making html for posts page: %w'' [] err), w)
           | Inr htmlData \<Rightarrow>
               (case os_WriteFile e (Join [destpath, ''posts.html'']) htmlData (fs w) of
                  (Some err, fs1) \<Rightarrow>
                    (Some (Errorf ''writing posts page %q: %w'' [Join [destpath, ''posts.html'']] err),
                     w\<lparr>fs := fs1\<rparr>)
                | (None, fs1) \<Rightarrow> (None, w\<lparr>fs := fs1\<rparr>)))"
    by (simp add: renderPostsPage_def Let_def a)
  show ?thesis
    by (rule conjI [OF a conjI [OF b conjI [OF c d]]])
qed

text \<open>
  The two posts A and B in the small world, with the parser that keeps its bytes: the
  listing page that \<open>renderPostsPage\<close> writes is the template followed by the body.
\<close>

theorem listing_body_witness:
  "[\<lparr>title = ''A'', summary = ''sa'', url = ''a.html'', metadata = None\<rparr>,
    \<lparr>title = ''B'', summary = ''sb'', url = ''b.html'', metadata = None\<rparr>] \<noteq> []
   \<and> renderPostsPage (exampleEnv oneParagraph)
       [\<lparr>title = ''A'', summary = ''sa'', url = ''a.html'', metadata = None\<rparr>,
        \<lparr>title = ''B'', summary = ''sb'', url = ''b.html'', metadata = None\<rparr>]
       \<lparr>SiteName = ''site'', Body = '''', RelRoot = ''''\<rparr> ''templates/template.html'' ''html''
       worldNoPosts
     = (None,
        \<lparr>fs = \<lparr>files =
                 [(''html/posts.html'',
                   ''<html>0. [A](a.html)\<newline>    - sa\<newline>1. [B](b.html)\<newline>    - sb\<newline>''),
                  (''pages-md/about.md'', ''# Hello''),
                  (''templates/template.html'', ''<html>'')],
               dirs = []\<rparr>,
         stderr = []\<rparr>)"
proof -
  let ?e = "exampleEnv oneParagraph"
  let ?posts = "[\<lparr>title = ''A'', summary = ''sa'', url = ''a.html'', metadata = None\<rparr>,
        \<lparr>title = ''B'', summary = ''sb'', url = ''b.html'', metadata = None\<rparr>]"
  let ?data = "\<lparr>SiteName = ''site'', Body = '''', RelRoot = ''''\<rparr>"
  let ?w1 = "\<lparr>fs = \<lparr>files =
                 [(''html/posts.html'',
                   ''<html>0. [A](a.html)\<newline>    - sa\<newline>1. [B](b.html)\<newline>    - sb\<newline>''),
                  (''pages-md/about.md'', ''# Hello''),
                  (''templates/template.html'', ''<html>'')],
               dirs = []\<rparr>,
         stderr = []\<rparr>"
  have ne: "?posts \<noteq> []"
    by simp
  have rhs: "(case makeHTML ?e
                  (?data\<lparr>Body := markdown_Render ?e (parseMD ?e
                     (concat (map (\<lambda>(idx, p). listingEntry idx p)
                                (zip [0 ..< length ?posts] ?posts))))\<rparr>)
                  ''templates/template.html'' worldNoPosts of
             Inl err \<Rightarrow> (Some (Errorf ''making html for posts page: %w'' [] err), worldNoPosts)
           | Inr htmlData \<Rightarrow>
               (case os_WriteFile ?e (Join [''html'', ''posts.html'']) htmlData (fs worldNoPosts) of
                  (Some err, fs1) \<Rightarrow>
                    (Some (Errorf ''writing posts page %q: %w'' [Join [''html'', ''posts.html'']] err),
                     worldNoPosts\<lparr>fs := fs1\<rparr>)
                | (None, fs1) \<Rightarrow> (None, worldNoPosts\<lparr>fs := fs1\<rparr>))) = (None, ?w1)"
    by code_simp
  have tie: "?posts \<noteq> [] \<longrightarrow>
      renderPostsPage ?e ?posts ?data ''templates/template.html'' ''html'' worldNoPosts =
        (case makeHTML ?e
                  (?data\<lparr>Body := markdown_Render ?e (parseMD ?e
                     (concat (map (\<lambda>(idx, p). listingEntry idx p)
                                (zip [0 ..< length ?posts] ?posts))))\<rparr>)
                  ''templates/template.html'' worldNoPosts of
             Inl err \<Rightarrow> (Some (Errorf ''making html for posts page: %w'' [] err), worldNoPosts)
           | Inr htmlData \<Rightarrow>
               (case os_WriteFile ?e (Join [''html'', ''posts.html'']) htmlData (fs worldNoPosts) of
                  (Some err, fs1) \<Rightarrow>
                    (Some (Errorf ''writing posts page %q: %w'' [Join [''html'', ''posts.html'']] err),
                     worldNoPosts\<lparr>fs := fs1\<rparr>)
                | (None, fs1) \<Rightarrow> (None, worldNoPosts\<lparr>fs := fs1\<rparr>)))"
    using listing_body [of ?posts 0 "hd ?posts" ?e ?data "''templates/template.html''" "''html''" worldNoPosts]
    by (elim conjE)
  have run: "renderPostsPage ?e ?posts ?data ''templates/template.html'' ''html'' worldNoPosts = (None, ?w1)"
    by (rule trans [OF mp [OF tie ne] rhs])
  show ?thesis
    by (rule conjI [OF ne run])
qed

section \<open>The date footer and the metadata it needs\<close>

text \<open>
  Claim C7. For a post whose metadata is present, \<open>addDate\<close> on a document tree (a
  container) returns the tree with two more top-level children, appended in this
  order: a horizontal rule, and a paragraph whose only child is a text leaf that reads
  \<open>Posted: \<close> followed by the posting date in the layout \<open>RFC1123\<close>.
\<close>

theorem addDate_footer:
  assumes "metadata p = Some m"
  shows "addDate e (Container k cs) p =
           Inr (Container k
                  (cs @ [Leaf HorizontalRule '''',
                         Container Paragraph
                           [Leaf Text (''Posted: '' @ time_Format e (DatePosted m) RFC1123)]]))
         \<and> (\<exists>doc1. addDate e (Container k cs) p = Inr doc1
                \<and> length (GetChildren doc1) = length (GetChildren (Container k cs)) + 2)"
proof -
  have "addDate e (Container k cs) p =
           Inr (Container k
                  (cs @ [Leaf HorizontalRule '''',
                         Container Paragraph
                           [Leaf Text (''Posted: '' @ time_Format e (DatePosted m) RFC1123)]]))"
    using assms by (simp add: addDate_def)
  then show ?thesis by simp
qed

theorem addDate_footer_witness:
  "addDate (exampleEnv (\<lambda>md. helloDoc)) helloDoc
     \<lparr>title = ''Hello'', summary = ''First words.'', url = ''blog/20230101-hello.html'',
      metadata = Some \<lparr>DatePosted = exampleDate, DatesEdited = []\<rparr>\<rparr>
   = Inr (Container Document
       [Container (Heading 1) [Leaf Text ''Hello''],
        Container Paragraph [Leaf Text ''First words.''],
        Leaf HorizontalRule '''',
        Container Paragraph [Leaf Text ''Posted: Sun, 01 Jan 2023 00:00:00 UTC'']])"
proof -
  let ?p = "\<lparr>title = ''Hello'', summary = ''First words.'', url = ''blog/20230101-hello.html'',
      metadata = Some \<lparr>DatePosted = exampleDate, DatesEdited = []\<rparr>\<rparr>"
  have m: "metadata ?p = Some \<lparr>DatePosted = exampleDate, DatesEdited = []\<rparr>"
    by simp
  show ?thesis
    using addDate_footer [OF m, of "exampleEnv (\<lambda>md. helloDoc)" Document
        "[Container (Heading 1) [Leaf Text ''Hello''], Container Paragraph [Leaf Text ''First words.'']]"]
    by (simp add: helloDoc_def exampleEnv_def)
qed

lemma renderPage_Inr:
  assumes "renderPage e conf idx fname (data, posts, pagelist) w = (Inr (data1, posts1, pagelist1), w1)"
  shows "pagelist1 = pagelist[idx := destinationPath (SourcePath conf) (DestinationPath conf) fname]"
    and "regexp_MatchString e (PostPattern conf) fname \<Longrightarrow>
           \<exists>p. posts1 = posts @ [p] \<and>
               url p = postURLOf (DestinationPath conf)
                         (destinationPath (SourcePath conf) (DestinationPath conf) fname)"
    and "\<not> regexp_MatchString e (PostPattern conf) fname \<Longrightarrow> posts1 = posts"
  using assms
  by (auto simp: renderPage_def Let_def split: sum.splits prod.splits option.splits if_splits)

lemma readPostMetadata_absent:
  assumes "os_Stat e (TrimSuffix fname (Ext fname) @ ''.meta.json'') (fs w) = Some err"
    and "errors_Is err ErrNotExist"
  shows "readPostMetadata e fname w = (Inr None, w)"
  using assms by (simp add: readPostMetadata_def)

lemma renderPage_nil_metadata:
  assumes "os_ReadFile e fname (fs w) = Inr pagemd"
    and "regexp_MatchString e (PostPattern conf) fname"
    and "readPostMetadata e fname w = (Inr None, w1)"
  shows "renderPage e conf idx fname st w =
           (Inl (Panic ''invalid memory address or nil pointer dereference''), w1)"
  using assms by (cases st) (simp add: renderPage_def Let_def addDate_def)


section \<open>Destination paths and post URLs\<close>

lemma ExtLoop_suffix: "\<exists>stem. rev xs @ acc = stem @ ExtLoop xs acc"
proof (induction xs arbitrary: acc)
  case Nil
  show ?case by simp
next
  case (Cons c xs)
  show ?case using Cons.IH [of "c # acc"] by auto
qed

lemma Ext_suffix: "suffix (Ext s) s"
  using ExtLoop_suffix [of "rev s" "[]"] by (auto simp: Ext_def suffix_def)

lemma TrimSuffix_Ext: "TrimSuffix s (Ext s) @ Ext s = s"
proof -
  obtain stem where st: "s = stem @ Ext s"
    using Ext_suffix [of s] by (auto simp: suffix_def)
  have "length s - length (Ext s) = length stem"
    using arg_cong [OF st, of length] by simp
  then have "take (length s - length (Ext s)) s = stem"
    using st by (metis append_eq_conv_conj)
  then show ?thesis
    using st Ext_suffix [of s] by (simp add: TrimSuffix_def)
qed

text \<open>
  Claim C8. The destination path of a source file under the source root is the
  destination root joined with what follows the source root, its final extension
  (which \<open>Ext\<close> finds as a suffix) replaced by \<^verbatim>\<open>.html\<close>; the URL of a post is its
  destination path without the destination root and the separator after it. The file
  \<^verbatim>\<open>pages-md/blog/20230101-hello.md\<close> with source root \<^verbatim>\<open>pages-md\<close> and destination root
  \<^verbatim>\<open>html\<close> goes to \<^verbatim>\<open>html/blog/20230101-hello.html\<close>, and its URL is
  \<^verbatim>\<open>blog/20230101-hello.html\<close>. A turn of the loop of \<open>renderPages\<close> that succeeds on
  a post records this destination path for the file and this URL in the post.
\<close>

theorem destinationPath_postURL:
  "destinationPath srcpath destpath (srcpath @ rest) =
     Join [destpath, TrimSuffix rest (Ext rest) @ ''.html'']
   \<and> TrimSuffix rest (Ext rest) @ Ext rest = rest
   \<and> postURLOf destpath (destpath @ ''/'' @ u) = u
   \<and> destinationPath ''pages-md'' ''html'' ''pages-md/blog/20230101-hello.md''
       = ''html/blog/20230101-hello.html''
   \<and> postURLOf ''html'' ''html/blog/20230101-hello.html'' = ''blog/20230101-hello.html''
   \<and> (\<forall>data posts pagelist w data1 posts1 pagelist1 w1.
        renderPage e conf idx fname (data, posts, pagelist) w = (Inr (data1, posts1, pagelist1), w1)
        \<and> regexp_MatchString e (PostPattern conf) fname \<longrightarrow>
          pagelist1 = pagelist[idx := destinationPath (SourcePath conf) (DestinationPath conf) fname]
          \<and> url (last posts1) =
              postURLOf (DestinationPath conf)
                (destinationPath (SourcePath conf) (DestinationPath conf) fname))"
proof -
  have a: "destinationPath srcpath destpath (srcpath @ rest) =
      Join [destpath, TrimSuffix rest (Ext rest) @ ''.html'']"
    by (simp add: destinationPath_def TrimPrefix_def)
  have b: "TrimSuffix rest (Ext rest) @ Ext rest = rest"
    by (rule TrimSuffix_Ext)
  have c: "postURLOf destpath (destpath @ ''/'' @ u) = u"
    by (simp add: postURLOf_def TrimPrefix_def)
  have d: "destinationPath ''pages-md'' ''html'' ''pages-md/blog/20230101-hello.md''
      = ''html/blog/20230101-hello.html''"
    by code_simp
  have f: "postURLOf ''html'' ''html/blog/20230101-hello.html'' = ''blog/20230101-hello.html''"
    by code_simp
  have g: "\<forall>data posts pagelist w data1 posts1 pagelist1 w1.
        renderPage e conf idx fname (data, posts, pagelist) w = (Inr (data1, posts1, pagelist1), w1)
        \<and> regexp_MatchString e (PostPattern conf) fname \<longrightarrow>
          pagelist1 = pagelist[idx := destinationPath (SourcePath conf) (DestinationPath conf) fname]
          \<and> url (last posts1) =
              postURLOf (DestinationPath conf)
                (destinationPath (SourcePath conf) (DestinationPath conf) fname)"
    using renderPage_Inr [of e conf idx fname] by fastforce
  show ?thesis
    using a b c d f g by blast
qed

text \<open>
  The post with its sidecar file, rendered by one turn of the loop in the small world.
\<close>

theorem destinationPath_postURL_witness:
  "renderPage (exampleEnv (\<lambda>md. helloDoc)) exampleConf 0 ''pages-md/blog/20230101-hello.md''
     (\<lparr>SiteName = ''site'', Body = '''', RelRoot = ''''\<rparr>, [], ['''']) worldSidecar
   = (Inr (\<lparr>SiteName = ''site'',
            Body = ''HelloFirst words.Posted: Sun, 01 Jan 2023 00:00:00 UTC'', RelRoot = ''.''\<rparr>,
           [\<lparr>title = ''Hello'', summary = ''First words.'', url = ''blog/20230101-hello.html'',
             metadata = Some \<lparr>DatePosted = exampleDate, DatesEdited = []\<rparr>\<rparr>],
           [''html/blog/20230101-hello.html'']),
      \<lparr>fs = \<lparr>files = [(''html/blog/20230101-hello.html'',
                          ''<html>HelloFirst words.Posted: Sun, 01 Jan 2023 00:00:00 UTC''),
                        (''pages-md/blog/20230101-hello.md'', ''# Hello''),
                        (''pages-md/blog/20230101-hello.meta.json'', ''posted 2023-01-01''),
                        (''templates/template.html'', ''<html>'')],
             dirs = [''html/blog/'']\<rparr>,
       stderr = []\<rparr>)
   \<and> regexp_MatchString (exampleEnv (\<lambda>md. helloDoc)) (PostPattern exampleConf)
       ''pages-md/blog/20230101-hello.md''
   \<and> [''''][0 := destinationPath (SourcePath exampleConf) (DestinationPath exampleConf)
                   ''pages-md/blog/20230101-hello.md''] = [''html/blog/20230101-hello.html'']
   \<and> postURLOf (DestinationPath exampleConf)
       (destinationPath (SourcePath exampleConf) (DestinationPath exampleConf)
          ''pages-md/blog/20230101-hello.md'') = ''blog/20230101-hello.html''"
proof -
  let ?e = "exampleEnv (\<lambda>md. helloDoc)"
  let ?f = "''pages-md/blog/20230101-hello.md''"
  let ?p = "\<lparr>title = ''Hello'', summary = ''First words.'', url = ''blog/20230101-hello.html'',
             metadata = Some \<lparr>DatePosted = exampleDate, DatesEdited = []\<rparr>\<rparr>"
  let ?data1 = "\<lparr>SiteName = ''site'',
            Body = ''HelloFirst words.Posted: Sun, 01 Jan 2023 00:00:00 UTC'', RelRoot = ''.''\<rparr>"
  let ?w1 = "\<lparr>fs = \<lparr>files = [(''html/blog/20230101-hello.html'',
                          ''<html>HelloFirst words.Posted: Sun, 01 Jan 2023 00:00:00 UTC''),
                        (''pages-md/blog/20230101-hello.md'', ''# Hello''),
                        (''pages-md/blog/20230101-hello.meta.json'', ''posted 2023-01-01''),
                        (''templates/template.html'', ''<html>'')],
             dirs = [''html/blog/'']\<rparr>,
       stderr = []\<rparr>"
  have run: "renderPage ?e exampleConf 0 ?f
      (\<lparr>SiteName = ''site'', Body = '''', RelRoot = ''''\<rparr>, [], ['''']) worldSidecar
      = (Inr (?data1, [?p], [''html/blog/20230101-hello.html'']), ?w1)"
    by code_simp
  have match: "regexp_MatchString ?e (PostPattern exampleConf) ?f"
    by code_simp
  have both: "[''html/blog/20230101-hello.html''] =
          [''''][0 := destinationPath (SourcePath exampleConf) (DestinationPath exampleConf) ?f]
        \<and> url (last [?p]) =
            postURLOf (DestinationPath exampleConf)
              (destinationPath (SourcePath exampleConf) (DestinationPath exampleConf) ?f)"
    using destinationPath_postURL [of _ _ _ _ ?e exampleConf 0 ?f] run match by blast
  have page: "[''''][0 := destinationPath (SourcePath exampleConf) (DestinationPath exampleConf) ?f]
      = [''html/blog/20230101-hello.html'']"
    using conjunct1 [OF both] by (rule sym)
  have u: "url (last [?p]) = ''blog/20230101-hello.html''"
    by simp
  have link: "postURLOf (DestinationPath exampleConf)
      (destinationPath (SourcePath exampleConf) (DestinationPath exampleConf) ?f)
      = ''blog/20230101-hello.html''"
    by (rule trans [OF sym [OF conjunct2 [OF both]] u])
  show ?thesis
    by (rule conjI [OF run conjI [OF match conjI [OF page link]]])
qed


section \<open>The pipeline\<close>








text \<open>
  Claim C2. \<open>addDate\<close> panics on the nil pointer whenever the post has no metadata,
  and on a document tree it returns normally exactly when the post has metadata. A
  turn of the loop of \<open>renderPages\<close> on a file that matches the post pattern calls it
  with whatever \<open>readPostMetadata\<close> returned, so the turn panics when that is nil;
  and a run whose first discovered file matches the pattern and has no sidecar file
  panics in \<open>renderPages\<close>.
\<close>

theorem addDate_needs_metadata:
  "(metadata p = None \<longrightarrow>
      addDate e doc p = Inl (Panic ''invalid memory address or nil pointer dereference''))
   \<and> ((\<exists>doc1. addDate e (Container k cs) p = Inr doc1) = (metadata p \<noteq> None))
   \<and> (os_ReadFile e fname (fs w) = Inr pagemd
        \<and> regexp_MatchString e (PostPattern conf) fname
        \<and> readPostMetadata e fname w = (Inr None, w1) \<longrightarrow>
      renderPage e conf idx fname st w =
        (Inl (Panic ''invalid memory address or nil pointer dereference''), w1))
   \<and> (collectMarkdownFiles e (SourcePath conf) w = Inr (fname # rest)
        \<and> regexp_Compile e (PostPattern conf) = None
        \<and> os_ReadFile e fname (fs w) = Inr pagemd
        \<and> regexp_MatchString e (PostPattern conf) fname
        \<and> os_Stat e (TrimSuffix fname (Ext fname) @ ''.meta.json'') (fs w) = Some err
        \<and> errors_Is err ErrNotExist \<longrightarrow>
      renderPages e conf w =
        (Inl (Panic ''invalid memory address or nil pointer dereference''), w))"
proof -
  let ?nil = "Panic ''invalid memory address or nil pointer dereference''"
  have a: "metadata p = None \<longrightarrow> addDate e doc p = Inl ?nil"
    by (simp add: addDate_def)
  have b: "(\<exists>doc1. addDate e (Container k cs) p = Inr doc1) = (metadata p \<noteq> None)"
  proof (cases "metadata p")
    case None
    then show ?thesis by (simp add: addDate_def)
  next
    case (Some m)
    then show ?thesis by (simp add: addDate_def)
  qed
  have c: "os_ReadFile e fname (fs w) = Inr pagemd
        \<and> regexp_MatchString e (PostPattern conf) fname
        \<and> readPostMetadata e fname w = (Inr None, w1) \<longrightarrow>
      renderPage e conf idx fname st w = (Inl ?nil, w1)"
    using renderPage_nil_metadata [of e fname w pagemd conf w1 idx st] by blast
  have d: "collectMarkdownFiles e (SourcePath conf) w = Inr (fname # rest)
        \<and> regexp_Compile e (PostPattern conf) = None
        \<and> os_ReadFile e fname (fs w) = Inr pagemd
        \<and> regexp_MatchString e (PostPattern conf) fname
        \<and> os_Stat e (TrimSuffix fname (Ext fname) @ ''.meta.json'') (fs w) = Some err
        \<and> errors_Is err ErrNotExist \<longrightarrow>
      renderPages e conf w = (Inl ?nil, w)"
  proof (intro impI, elim conjE)
    assume collect: "collectMarkdownFiles e (SourcePath conf) w = Inr (fname # rest)"
      and compile: "regexp_Compile e (PostPattern conf) = None"
      and read: "os_ReadFile e fname (fs w) = Inr pagemd"
      and match: "regexp_MatchString e (PostPattern conf) fname"
      and stat: "os_Stat e (TrimSuffix fname (Ext fname) @ ''.meta.json'') (fs w) = Some err"
      and notexist: "errors_Is err ErrNotExist"
    have none: "readPostMetadata e fname w = (Inr None, w)"
      using stat notexist by (rule readPostMetadata_absent)
    have first: "\<And>st. renderPage e conf 0 fname st w = (Inl ?nil, w)"
      using read match none by (rule renderPage_nil_metadata)
    show "renderPages e conf w = (Inl ?nil, w)"
      by (simp add: renderPages_def collect compile first)
  qed
  show ?thesis
    using a b c d by blast
qed

text \<open>The post without its sidecar file, in the small world.\<close>

theorem addDate_needs_metadata_witness:
  "metadata zeroPost = None
   \<and> addDate (exampleEnv (\<lambda>md. helloDoc)) helloDoc zeroPost =
       Inl (Panic ''invalid memory address or nil pointer dereference'')
   \<and> collectMarkdownFiles (exampleEnv (\<lambda>md. helloDoc)) (SourcePath exampleConf) worldNoSidecar
       = Inr [''pages-md/blog/20230101-hello.md'']
   \<and> regexp_Compile (exampleEnv (\<lambda>md. helloDoc)) (PostPattern exampleConf) = None
   \<and> os_ReadFile (exampleEnv (\<lambda>md. helloDoc)) ''pages-md/blog/20230101-hello.md'' (fs worldNoSidecar)
       = Inr ''# Hello''
   \<and> regexp_MatchString (exampleEnv (\<lambda>md. helloDoc)) (PostPattern exampleConf)
       ''pages-md/blog/20230101-hello.md''
   \<and> os_Stat (exampleEnv (\<lambda>md. helloDoc))
       (TrimSuffix ''pages-md/blog/20230101-hello.md'' (Ext ''pages-md/blog/20230101-hello.md'')
          @ ''.meta.json'') (fs worldNoSidecar) = Some ErrNotExist
   \<and> errors_Is ErrNotExist ErrNotExist
   \<and> readPostMetadata (exampleEnv (\<lambda>md. helloDoc)) ''pages-md/blog/20230101-hello.md'' worldNoSidecar
       = (Inr None, worldNoSidecar)
   \<and> renderPage (exampleEnv (\<lambda>md. helloDoc)) exampleConf 0 ''pages-md/blog/20230101-hello.md''
       (\<lparr>SiteName = ''site'', Body = '''', RelRoot = ''''\<rparr>, [], ['''']) worldNoSidecar
       = (Inl (Panic ''invalid memory address or nil pointer dereference''), worldNoSidecar)
   \<and> renderPages (exampleEnv (\<lambda>md. helloDoc)) exampleConf worldNoSidecar
       = (Inl (Panic ''invalid memory address or nil pointer dereference''), worldNoSidecar)"
proof -
  let ?e = "exampleEnv (\<lambda>md. helloDoc)"
  let ?f = "''pages-md/blog/20230101-hello.md''"
  let ?nil = "Panic ''invalid memory address or nil pointer dereference''"
  let ?st = "(\<lparr>SiteName = ''site'', Body = '''', RelRoot = ''''\<rparr>, [] :: post list, [''''])"
  note inst = addDate_needs_metadata [of zeroPost ?e helloDoc Document "[]" ?f worldNoSidecar
      "''# Hello''" exampleConf worldNoSidecar 0 ?st "[]" ErrNotExist]
  have h1: "metadata zeroPost = None"
    by (simp add: zeroPost_def)
  have h2: "collectMarkdownFiles ?e (SourcePath exampleConf) worldNoSidecar = Inr [?f]"
    by code_simp
  have h3: "regexp_Compile ?e (PostPattern exampleConf) = None"
    by code_simp
  have h4: "os_ReadFile ?e ?f (fs worldNoSidecar) = Inr ''# Hello''"
    by code_simp
  have h5: "regexp_MatchString ?e (PostPattern exampleConf) ?f"
    by code_simp
  have h6: "os_Stat ?e (TrimSuffix ?f (Ext ?f) @ ''.meta.json'') (fs worldNoSidecar) = Some ErrNotExist"
    by code_simp
  have h7: "errors_Is ErrNotExist ErrNotExist"
    by simp
  have h8: "readPostMetadata ?e ?f worldNoSidecar = (Inr None, worldNoSidecar)"
    using h6 h7 by (rule readPostMetadata_absent)
  have c1: "addDate ?e helloDoc zeroPost = Inl ?nil"
    using inst h1 by blast
  have c2: "renderPage ?e exampleConf 0 ?f ?st worldNoSidecar = (Inl ?nil, worldNoSidecar)"
    using inst h4 h5 h8 by blast
  have c3: "renderPages ?e exampleConf worldNoSidecar = (Inl ?nil, worldNoSidecar)"
    using inst h2 h3 h4 h5 h6 h7 by blast
  show ?thesis
    by (rule conjI [OF h1 conjI [OF c1 conjI [OF h2 conjI [OF h3 conjI [OF h4 conjI [OF h5
          conjI [OF h6 conjI [OF h7 conjI [OF h8 conjI [OF c2 c3]]]]]]]]]])
qed

text \<open>
  Claim C1, at a post without its sidecar file. The claim asks for a post record
  without metadata and a page rendered without the footer; the run panics in
  \<open>addDate\<close>, the program exits with status 2, and the page of the post is not
  written.
\<close>

theorem missing_sidecar_panics:
  "renderPages (exampleEnv (\<lambda>md. helloDoc)) exampleConf worldNoSidecar
     = (Inl (Panic ''invalid memory address or nil pointer dereference''), worldNoSidecar)
   \<and> fst (main (exampleEnv (\<lambda>md. helloDoc)) False worldNoSidecar) = 2
   \<and> map_of (files (fs (snd (main (exampleEnv (\<lambda>md. helloDoc)) False worldNoSidecar))))
       ''html/blog/20230101-hello.html'' = None"
  by code_simp

text \<open>
  \<open>renderPages\<close> returns nil once its loop has succeeded, whatever
  \<open>renderPostsPage\<close> returned.
\<close>

lemma renderPages_drops_listing_error:
  assumes "collectMarkdownFiles e (SourcePath conf) w = Inr pagesmd"
    and "regexp_Compile e (PostPattern conf) = None"
    and "renderPagesLoop e conf 0 pagesmd
           (\<lparr>SiteName = siteConfig.SiteName conf, Body = '''', RelRoot = ''''\<rparr>, [],
            replicate (length pagesmd) '''') w = (Inr st, w1)"
  shows "fst (renderPages e conf w) = Inr ()"
  using assms by (cases st) (simp add: renderPages_def)

text \<open>
  Claim C3, at a site with one post where \<^verbatim>\<open>html/posts.html\<close> is a directory. The
  claim asks that the failed write of the listing page ends the run with a message and
  a non-zero status; the loop over the pages succeeds, \<open>renderPostsPage\<close> returns the
  error of the write, \<open>renderPages\<close> returns nil all the same, and the program exits
  with status 0, nothing on standard error and no listing page. The same failure on
  the page of the post, whose write is checked, ends the run with a message and
  status 1.
\<close>

theorem listing_error_dropped:
  "renderPagesLoop (exampleEnv (\<lambda>md. helloDoc)) exampleConf 0 [''pages-md/blog/20230101-hello.md'']
     (\<lparr>SiteName = ''site'', Body = '''', RelRoot = ''''\<rparr>, [], ['''']) worldPostsDir
   = (Inr (\<lparr>SiteName = ''site'',
            Body = ''HelloFirst words.Posted: Sun, 01 Jan 2023 00:00:00 UTC'', RelRoot = ''.''\<rparr>,
           [\<lparr>title = ''Hello'', summary = ''First words.'', url = ''blog/20230101-hello.html'',
             metadata = Some \<lparr>DatePosted = exampleDate, DatesEdited = []\<rparr>\<rparr>],
           [''html/blog/20230101-hello.html'']),
      \<lparr>fs = \<lparr>files = [(''html/blog/20230101-hello.html'',
                          ''<html>HelloFirst words.Posted: Sun, 01 Jan 2023 00:00:00 UTC''),
                        (''pages-md/blog/20230101-hello.md'', ''# Hello''),
                        (''pages-md/blog/20230101-hello.meta.json'', ''posted 2023-01-01''),
                        (''templates/template.html'', ''<html>'')],
             dirs = [''html/blog/'', ''html/posts.html'']\<rparr>,
       stderr = []\<rparr>)
   \<and> fst (renderPostsPage (exampleEnv (\<lambda>md. helloDoc))
        [\<lparr>title = ''Hello'', summary = ''First words.'', url = ''blog/20230101-hello.html'',
          metadata = Some \<lparr>DatePosted = exampleDate, DatesEdited = []\<rparr>\<rparr>]
        \<lparr>SiteName = ''site'',
          Body = ''HelloFirst words.Posted: Sun, 01 Jan 2023 00:00:00 UTC'', RelRoot = ''.''\<rparr>
        ''templates/template.html'' ''html''
        \<lparr>fs = \<lparr>files = [(''html/blog/20230101-hello.html'',
                          ''<html>HelloFirst words.Posted: Sun, 01 Jan 2023 00:00:00 UTC''),
                        (''pages-md/blog/20230101-hello.md'', ''# Hello''),
                        (''pages-md/blog/20230101-hello.meta.json'', ''posted 2023-01-01''),
                        (''templates/template.html'', ''<html>'')],
               dirs = [''html/blog/'', ''html/posts.html'']\<rparr>,
         stderr = []\<rparr>)
     = Some (Errorf ''writing posts page %q: %w'' [''html/posts.html''] (ErrOther ''is a directory''))
   \<and> fst (renderPages (exampleEnv (\<lambda>md. helloDoc)) exampleConf worldPostsDir) = Inr ()
   \<and> fst (main (exampleEnv (\<lambda>md. helloDoc)) False worldPostsDir) = 0
   \<and> stderr (snd (main (exampleEnv (\<lambda>md. helloDoc)) False worldPostsDir)) = []
   \<and> map_of (files (fs (snd (main (exampleEnv (\<lambda>md. helloDoc)) False worldPostsDir))))
       ''html/posts.html'' = None
   \<and> fst (main (exampleEnv (\<lambda>md. helloDoc)) False worldPageDir) = 1
   \<and> stderr (snd (main (exampleEnv (\<lambda>md. helloDoc)) False worldPageDir)) =
       [Diag ''error: %v''
          (Errorf ''rendering pages: writing html file %q: %w'' [''html/blog/20230101-hello.html'']
             (ErrOther ''is a directory''))]"
  by code_simp


end
